theory Spec2Isabelle
  imports Complex_Main "HOL-Library.AList" "HOL-Library.Log_Nat"
begin

section \<open>The timer (class \<open>Timer\<close> of \<open>timer-manager.py\<close>)\<close>

text \<open>
  Conventions of the embedding.
  \<^item> A Python \<open>float\<close> is the real number it denotes (infinities and NaN are not
    modelled). The methods are written with exact \<open>+\<close> and \<open>-\<close>, in the order the source
    writes them. The two methods whose result is such a sum, \<open>get_time_spend\<close> and
    \<open>stop\<close>, are also given with the float addition and subtraction as parameters
    (\<open>Timer_get_time_spend_fl\<close>, \<open>Timer_stop_fl\<close>), of which the exact versions are
    instances; the rounding of binary64 is defined below for the finite range.
  \<^item> \<open>time.time()\<close> reads a global clock. A method that reads the clock takes the value
    read as an argument (\<open>now\<close>); nothing is assumed about successive readings.
  \<^item> A method that mutates \<open>self\<close> takes the timer and returns the timer afterwards.
    A method that can raise returns \<open>error option\<close> beside the timer afterwards:
    \<open>None\<close> when it returns normally, \<open>Some e\<close> when it raises \<open>e\<close>.
  \<^item> A callback is an opaque value of type \<open>'c\<close>; calling it is recorded as an event,
    what it does is not modelled.
\<close>

datatype error = ValueError | AttributeError

text \<open>
  The four attributes set by \<open>__init__\<close>. \<open>target_time\<close> and \<open>start_time\<close> are
  \<open>float or None\<close>; \<open>call_back\<close> is \<open>Callable\<close> with default \<open>None\<close>, so that
  \<open>callable(self.call_back)\<close> is the test \<open>call_back t \<noteq> None\<close>.
\<close>

record 'c Timer =
  target_time :: "real option"
  start_time :: "real option"
  time_spend :: real
  call_back :: "'c option"

definition Timer_init :: "real option \<Rightarrow> 'c option \<Rightarrow> 'c Timer" where
  "Timer_init activation_time cb =
     \<lparr>target_time = activation_time, start_time = None, time_spend = 0, call_back = cb\<rparr>"

text \<open>
  The source has no attribute \<open>running\<close>: a timer is running exactly when
  \<open>start_time is not None\<close>.
\<close>

definition running :: "'c Timer \<Rightarrow> bool" where
  "running t = (start_time t \<noteq> None)"

text \<open>\<open>get_time_spend\<close> assigns nothing; it reads the clock only on the second path.\<close>

definition Timer_get_time_spend :: "'c Timer \<Rightarrow> real \<Rightarrow> real" where
  "Timer_get_time_spend t now =
     (case start_time t of
        None \<Rightarrow> time_spend t
      | Some s \<Rightarrow> time_spend t + now - s)"

definition Timer_start :: "'c Timer \<Rightarrow> real \<Rightarrow> 'c Timer" where
  "Timer_start t now =
     (case start_time t of
        None \<Rightarrow> t\<lparr>start_time := Some now\<rparr>
      | Some _ \<Rightarrow> t)"

definition Timer_stop :: "'c Timer \<Rightarrow> real \<Rightarrow> error option \<times> 'c Timer" where
  "Timer_stop t now =
     (case start_time t of
        Some _ \<Rightarrow> (None, (t\<lparr>time_spend := Timer_get_time_spend t now\<rparr>)\<lparr>start_time := None\<rparr>)
      | None \<Rightarrow> (Some ValueError, t))"

definition Timer_reset :: "'c Timer \<Rightarrow> 'c Timer" where
  "Timer_reset t = (t\<lparr>start_time := None\<rparr>)\<lparr>time_spend := 0\<rparr>"

text \<open>
  Truth value of \<open>self.target_time\<close> in \<open>if self.target_time and ...\<close>: \<open>None\<close> and
  the float zero are false, every other float is true.
\<close>

fun truthy :: "real option \<Rightarrow> bool" where
  "truthy None = False"
| "truthy (Some d) = (d \<noteq> 0)"

text \<open>
  \<open>is_activated\<close> reads the clock in \<open>get_time_spend\<close> (\<open>now\<close>) and, on the reset
  path, a second time in \<open>start\<close> (\<open>now'\<close>). The comparison is only evaluated when the
  target is true (\<open>and\<close> short-circuits).
\<close>

definition Timer_is_activated :: "'c Timer \<Rightarrow> bool \<Rightarrow> real \<Rightarrow> real \<Rightarrow> bool \<times> 'c Timer" where
  "Timer_is_activated t reset now now' =
     (if truthy (target_time t) \<and>
         (case target_time t of None \<Rightarrow> False | Some d \<Rightarrow> Timer_get_time_spend t now \<ge> d)
      then (True, if reset then Timer_start (Timer_reset t) now' else t)
      else (False, t))"

text \<open>
  \<open>update\<close> calls \<open>is_activated()\<close> with the default \<open>reset = False\<close>, on which path
  the second clock reading is never taken. It returns the timer afterwards and the
  list of callbacks it invoked.
\<close>

definition Timer_update :: "'c Timer \<Rightarrow> real \<Rightarrow> 'c Timer \<times> 'c list" where
  "Timer_update t now =
     (case Timer_is_activated t False now now of
        (activated, t') \<Rightarrow>
          (t', if activated then (case call_back t' of Some f \<Rightarrow> [f] | None \<Rightarrow> []) else []))"

text \<open>
  A caller's use of one timer: any sequence of method calls, each with the clock values
  it would read. An exception raised by \<open>stop\<close> is caught by the caller, the timer
  being as \<open>stop\<close> left it.
\<close>

datatype call = Start real | Stop real | Reset | Is_activated bool real real | Update real

fun apply_call :: "call \<Rightarrow> 'c Timer \<Rightarrow> 'c Timer" where
  "apply_call (Start now) t = Timer_start t now"
| "apply_call (Stop now) t = snd (Timer_stop t now)"
| "apply_call Reset t = Timer_reset t"
| "apply_call (Is_activated reset now now') t = snd (Timer_is_activated t reset now now')"
| "apply_call (Update now) t = fst (Timer_update t now)"

subsection \<open>Float arithmetic\<close>

text \<open>
  \<open>get_time_spend\<close> and \<open>stop\<close> with Python's float \<open>+\<close> and \<open>-\<close> as the parameters
  \<open>fadd\<close> and \<open>fsub\<close>: \<open>self.time_spend + time.time() - self.start_time\<close> is the
  subtraction of \<open>start_time\<close> from the sum of \<open>time_spend\<close> and the clock.
\<close>

definition Timer_get_time_spend_fl ::
    "(real \<Rightarrow> real \<Rightarrow> real) \<Rightarrow> (real \<Rightarrow> real \<Rightarrow> real) \<Rightarrow> 'c Timer \<Rightarrow> real \<Rightarrow> real" where
  "Timer_get_time_spend_fl fadd fsub t now =
     (case start_time t of
        None \<Rightarrow> time_spend t
      | Some s \<Rightarrow> fsub (fadd (time_spend t) now) s)"

definition Timer_stop_fl ::
    "(real \<Rightarrow> real \<Rightarrow> real) \<Rightarrow> (real \<Rightarrow> real \<Rightarrow> real) \<Rightarrow> 'c Timer \<Rightarrow> real
      \<Rightarrow> error option \<times> 'c Timer" where
  "Timer_stop_fl fadd fsub t now =
     (case start_time t of
        Some _ \<Rightarrow>
          (None, (t\<lparr>time_spend := Timer_get_time_spend_fl fadd fsub t now\<rparr>)\<lparr>start_time := None\<rparr>)
      | None \<Rightarrow> (Some ValueError, t))"


definition binade :: "real \<Rightarrow> int" where
  "binade x =
     (if 1 \<le> \<bar>x\<bar> then bitlen \<lfloor>\<bar>x\<bar>\<rfloor> - 1 else - bitlen (\<lceil>1 / \<bar>x\<bar>\<rceil> - 1))"





section \<open>The registry (class \<open>Timer_Manager\<close>)\<close>

text \<open>
  Timers are objects: the registry holds references, and the same timer may be reached
  under several names. A world is a store of timers by address together with the
  clock: \<open>clock w n\<close> is the value of the \<open>n\<close>-th call of \<open>time.time()\<close>, and
  \<open>ticks w\<close> counts the calls made so far.
\<close>

type_synonym addr = nat

record 'c world =
  heap :: "addr \<Rightarrow> 'c Timer"
  clock :: "nat \<Rightarrow> real"
  ticks :: nat

text \<open>
  The dictionary \<open>__timers\<close> keeps insertion order: an association list with
  \<open>AList.update\<close> (replace in place, else append) for \<open>d[k] = v\<close>, \<open>AList.delete\<close> for
  \<open>del d[k]\<close> and \<open>map_of\<close> for \<open>d.get(k)\<close>.
\<close>

type_synonym Timer_Manager = "(string \<times> addr) list"

definition Timer_Manager_init :: Timer_Manager where
  "Timer_Manager_init = []"

text \<open>
  \<open>__getattr__\<close>: \<open>if timer:\<close> tests the truth value of the looked-up object; a
  \<open>Timer\<close> defines neither \<open>__bool__\<close> nor \<open>__len__\<close> and is always true, so the test
  fails exactly when \<open>get\<close> returned \<open>None\<close>. The method assigns nothing. This is
  the method as called with a name; Python consults the instance and the class before it
  calls \<open>__getattr__\<close>, which is not part of the method.
\<close>

definition Timer_Manager_getattr :: "Timer_Manager \<Rightarrow> string \<Rightarrow> error + addr" where
  "Timer_Manager_getattr timers name =
     (case map_of timers name of
        Some timer \<Rightarrow> Inr timer
      | None \<Rightarrow> Inl AttributeError)"

text \<open>
  \<open>__setattr__\<close> with a \<open>Timer\<close> as value (the parameter's annotation \<open>value: Timer\<close>):
  the first branch. The two other branches, one of them raising \<open>TypeError\<close>, are taken
  only by values that are not timers, which the type of \<open>v\<close> excludes.
\<close>

definition Timer_Manager_setattr :: "Timer_Manager \<Rightarrow> string \<Rightarrow> addr \<Rightarrow> Timer_Manager" where
  "Timer_Manager_setattr timers name v = AList.update name v timers"

definition Timer_Manager_delattr :: "Timer_Manager \<Rightarrow> string \<Rightarrow> error option \<times> Timer_Manager" where
  "Timer_Manager_delattr timers name =
     (if name \<in> set (map fst timers)
      then (None, AList.delete name timers)
      else (Some AttributeError, timers))"

text \<open>\<open>x.stop()\<close> on the timer at address \<open>a\<close>; the clock is read only when it is running.\<close>

definition stop_ref :: "addr \<Rightarrow> 'c world \<Rightarrow> error option \<times> 'c world" where
  "stop_ref a w =
     (case Timer_stop (heap w a) (clock w (ticks w)) of
        (None, t') \<Rightarrow> (None, w\<lparr>heap := (heap w)(a := t'), ticks := Suc (ticks w)\<rparr>)
      | (Some e, t') \<Rightarrow> (Some e, w\<lparr>heap := (heap w)(a := t')\<rparr>))"

text \<open>
  \<open>any(map(lambda x: x.stop(), values))\<close>: \<open>map\<close> is lazy and \<open>any\<close> consumes it from
  the left. \<open>stop\<close> returns \<open>None\<close>, which is false, so \<open>any\<close> never stops early on a
  value; an exception raised by a call leaves \<open>any\<close> and \<open>stop_all\<close> at once.
\<close>

fun stop_each :: "addr list \<Rightarrow> 'c world \<Rightarrow> error option \<times> 'c world" where
  "stop_each [] w = (None, w)"
| "stop_each (a # as) w =
     (case stop_ref a w of
        (Some e, w') \<Rightarrow> (Some e, w')
      | (None, w') \<Rightarrow> stop_each as w')"

definition Timer_Manager_stop_all :: "Timer_Manager \<Rightarrow> 'c world \<Rightarrow> error option \<times> 'c world" where
  "Timer_Manager_stop_all timers w = stop_each (map snd timers) w"

subsection \<open>A concrete world\<close>

text \<open>
  Three timers without target or callback: the one at address 1 was started when the
  clock read 0, the ones at 0 and 2 (and everywhere else) were never started. The
  \<open>n\<close>-th clock reading is \<open>n\<close>.
\<close>

definition example_world :: "unit world" where
  "example_world =
     \<lparr>heap = (\<lambda>_. Timer_init None None)(1 := Timer_start (Timer_init None None) 0),
      clock = real, ticks = 0\<rparr>"

text \<open>\<open>m.a = <timer 0>; m.b = <timer 1>\<close> on a fresh manager, and the other order.\<close>

definition manager_ab :: Timer_Manager where
  "manager_ab = Timer_Manager_setattr (Timer_Manager_setattr Timer_Manager_init ''a'' 0) ''b'' 1"

definition manager_ba :: Timer_Manager where
  "manager_ba = Timer_Manager_setattr (Timer_Manager_setattr Timer_Manager_init ''b'' 1) ''a'' 0"

text \<open>\<open>m.a = <timer 1>; m.b = <timer 1>\<close>: one timer under two names.\<close>

definition manager_alias :: Timer_Manager where
  "manager_alias =
     Timer_Manager_setattr (Timer_Manager_setattr Timer_Manager_init ''a'' 1) ''b'' 1"

section \<open>Auxiliary facts\<close>

lemma target_time_apply_call: "target_time (apply_call c t) = target_time t"
  by (cases c)
    (simp_all add: Timer_start_def Timer_stop_def Timer_reset_def Timer_is_activated_def
      Timer_update_def split: option.splits)

lemma target_time_fold_apply_call: "target_time (fold apply_call cs t) = target_time t"
  by (induction cs arbitrary: t) (simp_all add: target_time_apply_call)

lemma is_activated_iff:
  "fst (Timer_is_activated t reset now now') \<longleftrightarrow>
     (\<exists>d. target_time t = Some d \<and> d \<noteq> 0 \<and> d \<le> Timer_get_time_spend t now)"
  by (cases "target_time t") (simp_all add: Timer_is_activated_def)

lemma is_activated_no_reset_unchanged: "snd (Timer_is_activated t False now now') = t"
  by (simp add: Timer_is_activated_def)

lemma get_time_spend_fl_exact:
  "Timer_get_time_spend_fl (+) (-) t now = Timer_get_time_spend t now"
  by (simp add: Timer_get_time_spend_fl_def Timer_get_time_spend_def)

lemma stop_fl_exact: "Timer_stop_fl (+) (-) t now = Timer_stop t now"
  by (simp add: Timer_stop_fl_def Timer_stop_def get_time_spend_fl_exact split: option.splits)

text \<open>With exact arithmetic the sum may be regrouped; with rounding it may not.\<close>

lemma get_time_spend_exact_regrouped:
  "start_time t = Some s \<Longrightarrow> Timer_get_time_spend t now = time_spend t + (now - s)"
  by (simp add: Timer_get_time_spend_def)

text \<open>\<open>binade\<close> is the binary exponent.\<close>

lemma binade_bounds:
  assumes "x \<noteq> 0"
  shows "2 powi binade x \<le> \<bar>x\<bar>" and "\<bar>x\<bar> < 2 powi (binade x + 1)"
proof -
  have "2 powi binade x \<le> \<bar>x\<bar> \<and> \<bar>x\<bar> < 2 powi (binade x + 1)"
  proof (cases "1 \<le> \<bar>x\<bar>")
    case True
    define n where "n = \<lfloor>\<bar>x\<bar>\<rfloor>"
    have n: "0 < n" using True by (simp add: n_def)
    have b: "binade x = bitlen n - 1" using True by (simp add: binade_def n_def)
    from bitlen_bounds [OF n] have lo: "2 ^ nat (bitlen n - 1) \<le> n" and hi: "n < 2 ^ nat (bitlen n)"
      by simp_all
    have bl: "1 \<le> bitlen n" using n by (simp add: bitlen_alt_def)
    have "real_of_int n \<le> \<bar>x\<bar>" by (simp add: n_def)
    moreover have "\<bar>x\<bar> < real_of_int n + 1" by (simp add: n_def)
    moreover from lo have "real_of_int (2 ^ nat (bitlen n - 1)) \<le> real_of_int n"
      by (simp only: of_int_le_iff)
    then have "(2::real) ^ nat (bitlen n - 1) \<le> real_of_int n" by simp
    moreover from hi have "n + 1 \<le> 2 ^ nat (bitlen n)" by simp
    then have "real_of_int (n + 1) \<le> real_of_int (2 ^ nat (bitlen n))"
      by (simp only: of_int_le_iff)
    then have "real_of_int n + 1 \<le> 2 ^ nat (bitlen n)" by simp
    ultimately have "(2::real) ^ nat (bitlen n - 1) \<le> \<bar>x\<bar>" "\<bar>x\<bar> < 2 ^ nat (bitlen n)"
      by linarith+
    moreover have "(2::real) powi (bitlen n - 1) = 2 ^ nat (bitlen n - 1)"
      using bl by (simp add: power_int_def)
    moreover have "(2::real) powi (bitlen n - 1 + 1) = 2 ^ nat (bitlen n)"
      using bl by (simp add: power_int_def)
    ultimately show ?thesis by (simp add: b)
  next
    case False
    define y where "y = 1 / \<bar>x\<bar>"
    define k where "k = \<lceil>y\<rceil> - 1"
    have x: "0 < \<bar>x\<bar>" "\<bar>x\<bar> < 1" using assms False by simp_all
    then have y: "1 < y" by (simp add: y_def)
    then have k: "0 < k" unfolding k_def by linarith
    have b: "binade x = - bitlen k" using False by (simp add: binade_def k_def y_def)
    from bitlen_bounds [OF k] have lo: "2 ^ nat (bitlen k - 1) \<le> k" and hi: "k < 2 ^ nat (bitlen k)"
      by simp_all
    have bl: "1 \<le> bitlen k" using k by (simp add: bitlen_alt_def)
    have ky: "real_of_int k < y" "y \<le> real_of_int k + 1" unfolding k_def by linarith+
    from lo have "real_of_int (2 ^ nat (bitlen k - 1)) \<le> real_of_int k"
      by (simp only: of_int_le_iff)
    then have "(2::real) ^ nat (bitlen k - 1) \<le> real_of_int k" by simp
    with ky have l: "(2::real) ^ nat (bitlen k - 1) < y" by linarith
    from hi have "k + 1 \<le> 2 ^ nat (bitlen k)" by simp
    then have "real_of_int (k + 1) \<le> real_of_int (2 ^ nat (bitlen k))"
      by (simp only: of_int_le_iff)
    then have "real_of_int k + 1 \<le> 2 ^ nat (bitlen k)" by simp
    with ky have h: "y \<le> 2 ^ nat (bitlen k)" by linarith
    have xy: "\<bar>x\<bar> = 1 / y" using x by (simp add: y_def)
    from h y have "1 / 2 ^ nat (bitlen k) \<le> \<bar>x\<bar>"
      unfolding xy by (simp add: frac_le)
    moreover from l have "\<bar>x\<bar> < 1 / 2 ^ nat (bitlen k - 1)"
      unfolding xy by (simp add: frac_less2)
    moreover have "(2::real) powi (- bitlen k) = 1 / 2 ^ nat (bitlen k)"
      using bl by (simp add: power_int_def field_simps)
    moreover have "(2::real) powi (- bitlen k + 1) = 1 / 2 ^ nat (bitlen k - 1)"
    proof -
      have "- bitlen k + 1 = - (bitlen k - 1)" by simp
      then show ?thesis using bl by (simp add: power_int_def field_simps nat_diff_distrib)
    qed
    ultimately show ?thesis by (simp add: b)
  qed
  then show "2 powi binade x \<le> \<bar>x\<bar>" and "\<bar>x\<bar> < 2 powi (binade x + 1)" by simp_all
qed








text \<open>
  Every sequence of members splits into the members \<open>stop_all\<close> stops, distinct and
  running, and a rest that is empty or begins with a member that is not running or was
  reached before.
\<close>

lemma halt_split_exists:
  "\<exists>pre rest. as = pre @ rest \<and> distinct pre \<and> (\<forall>a\<in>set pre. running (heap w a))
     \<and> (case rest of [] \<Rightarrow> True | b # _ \<Rightarrow> b \<in> set pre \<or> \<not> running (heap w b))"
proof (induction as rule: rev_induct)
  case Nil
  show ?case by simp
next
  case (snoc x xs)
  then obtain pre rest where s: "xs = pre @ rest" "distinct pre"
    "\<forall>a\<in>set pre. running (heap w a)"
    "case rest of [] \<Rightarrow> True | b # _ \<Rightarrow> b \<in> set pre \<or> \<not> running (heap w b)"
    by blast
  show ?case
  proof (cases rest)
    case (Cons b bs)
    with s have "xs @ [x] = pre @ (rest @ [x])"
      "case rest @ [x] of [] \<Rightarrow> True | b # _ \<Rightarrow> b \<in> set pre \<or> \<not> running (heap w b)"
      by simp_all
    with s(2,3) show ?thesis by blast
  next
    case Nil
    show ?thesis
    proof (cases "x \<in> set pre \<or> \<not> running (heap w x)")
      case True
      with s Nil have "xs @ [x] = pre @ [x]"
        "case [x] of [] \<Rightarrow> True | b # _ \<Rightarrow> b \<in> set pre \<or> \<not> running (heap w b)"
        by simp_all
      with s(2,3) show ?thesis by blast
    next
      case False
      with s Nil have "xs @ [x] = (pre @ [x]) @ []" "distinct (pre @ [x])"
        "\<forall>a\<in>set (pre @ [x]). running (heap w a)"
        "case [] :: addr list of [] \<Rightarrow> True
          | b # _ \<Rightarrow> b \<in> set (pre @ [x]) \<or> \<not> running (heap w b)"
        by auto
      then show ?thesis by blast
    qed
  qed
qed

text \<open>Keys stay unique, as in a dictionary.\<close>

lemma distinct_setattr:
  "distinct (map fst timers) \<Longrightarrow> distinct (map fst (Timer_Manager_setattr timers name a))"
  by (simp add: Timer_Manager_setattr_def distinct_update)

lemma distinct_delattr:
  "distinct (map fst timers) \<Longrightarrow> distinct (map fst (snd (Timer_Manager_delattr timers name)))"
  by (simp add: Timer_Manager_delattr_def distinct_delete)

lemma stop_ref_running:
  assumes "running (heap w a)"
  shows "stop_ref a w =
    (None, w\<lparr>heap := (heap w)(a := snd (Timer_stop (heap w a) (clock w (ticks w)))),
             ticks := Suc (ticks w)\<rparr>)"
    and "fst (Timer_stop (heap w a) (clock w (ticks w))) = None"
  using assms by (auto simp add: stop_ref_def Timer_stop_def running_def)

lemma stop_ref_not_running:
  assumes "\<not> running (heap w a)"
  shows "stop_ref a w = (Some ValueError, w)"
  using assms by (simp add: stop_ref_def Timer_stop_def running_def)

text \<open>
  A prefix of distinct running timers is stopped one by one, the \<open>i\<close>-th with the
  \<open>i\<close>-th clock reading from now, and the batch goes on with the rest.
\<close>

lemma stop_each_prefix:
  assumes "distinct pre" and "\<forall>a\<in>set pre. running (heap w a)"
  shows "\<exists>w'. stop_each (pre @ rest) w = stop_each rest w'
      \<and> clock w' = clock w \<and> ticks w' = ticks w + length pre
      \<and> (\<forall>a. a \<notin> set pre \<longrightarrow> heap w' a = heap w a)
      \<and> (\<forall>i<length pre.
           Timer_stop (heap w (pre ! i)) (clock w (ticks w + i)) = (None, heap w' (pre ! i)))"
  using assms
proof (induction pre arbitrary: w)
  case Nil
  show ?case by (rule exI [of _ w]) simp
next
  case (Cons a as)
  let ?t = "snd (Timer_stop (heap w a) (clock w (ticks w)))"
  let ?w1 = "w\<lparr>heap := (heap w)(a := ?t), ticks := Suc (ticks w)\<rparr>"
  from Cons.prems have run: "running (heap w a)" and notin: "a \<notin> set as"
    and dist: "distinct as" by simp_all
  have step: "stop_ref a w = (None, ?w1)"
    and ok: "fst (Timer_stop (heap w a) (clock w (ticks w))) = None"
    using stop_ref_running [OF run] by simp_all
  have "\<forall>b\<in>set as. running (heap ?w1 b)"
    using Cons.prems notin by auto
  from Cons.IH [OF dist this] obtain w' where
    w': "stop_each (as @ rest) ?w1 = stop_each rest w'"
      "clock w' = clock w" "ticks w' = Suc (ticks w) + length as"
      "\<forall>b. b \<notin> set as \<longrightarrow> heap w' b = heap ?w1 b"
      "\<forall>i<length as. Timer_stop (heap ?w1 (as ! i)) (clock ?w1 (ticks ?w1 + i))
          = (None, heap w' (as ! i))"
    by auto
  have "stop_each ((a # as) @ rest) w = stop_each rest w'"
    using step w'(1) by simp
  moreover have "\<forall>b. b \<notin> set (a # as) \<longrightarrow> heap w' b = heap w b"
    using w'(4) by simp
  moreover have "\<forall>i<length (a # as).
      Timer_stop (heap w ((a # as) ! i)) (clock w (ticks w + i)) = (None, heap w' ((a # as) ! i))"
  proof (intro allI impI)
    fix i assume i: "i < length (a # as)"
    show "Timer_stop (heap w ((a # as) ! i)) (clock w (ticks w + i))
        = (None, heap w' ((a # as) ! i))"
    proof (cases i)
      case 0
      have "heap w' a = ?t" using w'(4) notin by simp
      with ok 0 show ?thesis by (simp add: prod_eq_iff)
    next
      case (Suc j)
      with i have j: "j < length as" by simp
      then have "as ! j \<noteq> a" using notin by auto
      with w'(5) j Suc show ?thesis by auto
    qed
  qed
  ultimately show ?case using w'(2,3) by auto
qed

section \<open>The timer's operations\<close>




text \<open>
  C7. \<open>start\<close> on a running timer changes nothing, so a second \<open>start\<close> with no \<open>stop\<close>
  between is a no-op: \<open>start_time\<close> stays as the first \<open>start\<close> recorded it and the
  elapsed time read afterwards is the same as if the second call had not been made.
  \<open>start\<close> has no failing path (\<open>Timer_start\<close> returns a timer, never an error).
\<close>

theorem start_idempotent:
  "(running t \<longrightarrow> Timer_start t now' = t)
   \<and> Timer_start (Timer_start t now) now' = Timer_start t now
   \<and> (\<not> running t \<longrightarrow> start_time (Timer_start (Timer_start t now) now') = Some now)
   \<and> Timer_get_time_spend (Timer_start (Timer_start t now) now') q
       = Timer_get_time_spend (Timer_start t now) q"
  by (auto simp add: Timer_start_def running_def split: option.splits)

theorem start_idempotent_witness:
  "\<not> running (Timer_init None (None :: unit option))
   \<and> running (Timer_start (Timer_init None (None :: unit option)) 10)
   \<and> Timer_start (Timer_start (Timer_init None (None :: unit option)) 10) 20
       = Timer_start (Timer_init None None) 10
   \<and> start_time (Timer_start (Timer_start (Timer_init None (None :: unit option)) 10) 20) = Some 10
   \<and> Timer_get_time_spend (Timer_start (Timer_start (Timer_init None (None :: unit option)) 10) 20) 25
       = 15"
proof -
  let ?t0 = "Timer_init None (None :: unit option)"
  let ?t1 = "Timer_start ?t0 10"
  have h0: "\<not> running ?t0"
    by (simp add: running_def Timer_init_def)
  have h1: "running ?t1"
    by (simp add: running_def Timer_start_def Timer_init_def)
  from h1 start_idempotent [of ?t1 20 10 25]
  have r1: "Timer_start ?t1 20 = ?t1"
    by blast
  from h0 start_idempotent [of ?t0 20 10 25]
  have r2: "start_time (Timer_start ?t1 20) = Some 10"
    and "Timer_get_time_spend (Timer_start ?t1 20) 25 = Timer_get_time_spend ?t1 25"
    by blast+
  then have r3: "Timer_get_time_spend (Timer_start ?t1 20) 25 = 15"
    by (simp add: Timer_get_time_spend_def Timer_start_def Timer_init_def)
  from h0 h1 r1 r2 r3 show ?thesis by blast
qed




text \<open>
  C8. \<open>reset\<close> has no failing path; whatever the timer's state, it sets \<open>time_spend\<close>
  to zero and clears \<open>start_time\<close>, dropping the interval in progress instead of adding
  it, and the elapsed time read afterwards is zero.
\<close>

theorem reset_spec:
  "Timer_reset t = t\<lparr>start_time := None, time_spend := 0\<rparr>
   \<and> time_spend (Timer_reset t) = 0
   \<and> \<not> running (Timer_reset t)
   \<and> Timer_get_time_spend (Timer_reset t) now = 0"
  by (simp add: Timer_reset_def running_def Timer_get_time_spend_def)

theorem reset_spec_witness:
  "Timer_get_time_spend
     \<lparr>target_time = Some 5, start_time = Some 100, time_spend = 7, call_back = (None :: unit option)\<rparr>
     200 = 107
   \<and> Timer_reset
       \<lparr>target_time = Some 5, start_time = Some 100, time_spend = 7, call_back = (None :: unit option)\<rparr>
     = \<lparr>target_time = Some 5, start_time = None, time_spend = 0, call_back = None\<rparr>
   \<and> Timer_get_time_spend (Timer_reset
       \<lparr>target_time = Some 5, start_time = Some 100, time_spend = 7, call_back = (None :: unit option)\<rparr>)
     200 = 0"
proof -
  let ?t = "\<lparr>target_time = Some 5, start_time = Some 100, time_spend = 7,
    call_back = (None :: unit option)\<rparr>"
  have r0: "Timer_get_time_spend ?t 200 = 107"
    by (simp add: Timer_get_time_spend_def)
  from reset_spec [of ?t 200]
  have "Timer_reset ?t = ?t\<lparr>start_time := None, time_spend := 0\<rparr>"
    and r2: "Timer_get_time_spend (Timer_reset ?t) 200 = 0"
    by blast+
  then have r1: "Timer_reset ?t
      = \<lparr>target_time = Some 5, start_time = None, time_spend = 0, call_back = None\<rparr>"
    by simp
  from r0 r1 r2 show ?thesis by blast
qed

text \<open>
  C2. The claim: \<open>is_activated\<close> without reset returns true if and only if
  \<open>target_time\<close> is set and the elapsed time has reached it. The code tests the truth
  value of \<open>target_time\<close>, not its presence, so it answers \<open>False\<close> on a timer
  constructed with the target \<open>0.0\<close>, where the target is set and the elapsed time
  (zero before any start, 5 after running from 100 to 105) has reached it.
\<close>

theorem is_activated_zero_target:
  "target_time (Timer_init (Some 0) (None :: unit option)) = Some 0
   \<and> 0 \<le> Timer_get_time_spend (Timer_init (Some 0) (None :: unit option)) 100
   \<and> fst (Timer_is_activated (Timer_init (Some 0) (None :: unit option)) False 100 100) = False
   \<and> target_time (Timer_start (Timer_init (Some 0) (None :: unit option)) 100) = Some 0
   \<and> Timer_get_time_spend (Timer_start (Timer_init (Some 0) (None :: unit option)) 100) 105 = 5
   \<and> fst (Timer_is_activated (Timer_start (Timer_init (Some 0) (None :: unit option)) 100)
        False 105 105) = False"
  by (simp add: Timer_init_def Timer_start_def Timer_get_time_spend_def Timer_is_activated_def)

text \<open>
  C5. When the activation test holds (at the clock reading \<open>now\<close>), \<open>is_activated\<close>
  with reset returns \<open>True\<close> and leaves the timer reset and restarted: \<open>time_spend\<close> is
  zero and \<open>start_time\<close> is the reading \<open>now'\<close> that \<open>start\<close> took, so the timer is
  running, its elapsed time is zero at that instant and is counted from it afterwards.
\<close>

theorem is_activated_reset_spec:
  "fst (Timer_is_activated t False now now0) \<longrightarrow>
     Timer_is_activated t True now now' = (True, t\<lparr>start_time := Some now', time_spend := 0\<rparr>)
     \<and> running (snd (Timer_is_activated t True now now'))
     \<and> Timer_get_time_spend (snd (Timer_is_activated t True now now')) now' = 0
     \<and> Timer_get_time_spend (snd (Timer_is_activated t True now now')) later = later - now'"
  by (simp add: Timer_is_activated_def Timer_start_def Timer_reset_def running_def
      Timer_get_time_spend_def)

theorem is_activated_reset_spec_witness:
  "fst (Timer_is_activated (Timer_start (Timer_init (Some 5) (None :: unit option)) 100)
     False 106 106)
   \<and> Timer_is_activated (Timer_start (Timer_init (Some 5) (None :: unit option)) 100) True 106 107
       = (True, \<lparr>target_time = Some 5, start_time = Some 107, time_spend = 0, call_back = None\<rparr>)
   \<and> Timer_get_time_spend
       (snd (Timer_is_activated (Timer_start (Timer_init (Some 5) (None :: unit option)) 100)
          True 106 107)) 107 = 0"
proof -
  let ?t = "Timer_start (Timer_init (Some 5) (None :: unit option)) 100"
  have h: "fst (Timer_is_activated ?t False 106 106)"
    by (simp add: Timer_is_activated_def Timer_get_time_spend_def Timer_start_def Timer_init_def)
  from h is_activated_reset_spec [of ?t 106 106 107 107]
  have "Timer_is_activated ?t True 106 107
      = (True, ?t\<lparr>start_time := Some 107, time_spend := 0\<rparr>)"
    and r2: "Timer_get_time_spend (snd (Timer_is_activated ?t True 106 107)) 107 = 0"
    by blast+
  then have r1: "Timer_is_activated ?t True 106 107
      = (True, \<lparr>target_time = Some 5, start_time = Some 107, time_spend = 0, call_back = None\<rparr>)"
    by (simp add: Timer_start_def Timer_init_def)
  from h r1 r2 show ?thesis by blast
qed

text \<open>
  C6. \<open>update\<close> leaves every attribute of the timer as it was. It invokes the callback,
  once, when the activation test without reset holds and a callback is set, and invokes
  nothing otherwise. (What the invoked callback does is the callback's own effect.)
\<close>

theorem update_spec:
  "fst (Timer_update t now) = t
   \<and> snd (Timer_update t now) =
       (if fst (Timer_is_activated t False now now')
        then (case call_back t of Some f \<Rightarrow> [f] | None \<Rightarrow> [])
        else [])"
  by (simp add: Timer_update_def Timer_is_activated_def)

theorem update_spec_witness:
  "Timer_update (Timer_start (Timer_init (Some 5) (Some (7 :: nat))) 100) 106
     = (Timer_start (Timer_init (Some 5) (Some 7)) 100, [7])
   \<and> Timer_update (Timer_start (Timer_init (Some 5) (Some (7 :: nat))) 100) 102
     = (Timer_start (Timer_init (Some 5) (Some 7)) 100, [])
   \<and> Timer_update (Timer_start (Timer_init (Some 5) (None :: nat option)) 100) 106
     = (Timer_start (Timer_init (Some 5) None) 100, [])"
proof -
  let ?t = "Timer_start (Timer_init (Some 5) (Some (7 :: nat))) 100"
  let ?u = "Timer_start (Timer_init (Some 5) (None :: nat option)) 100"
  have a1: "fst (Timer_is_activated ?t False 106 106)"
    and a2: "\<not> fst (Timer_is_activated ?t False 102 102)"
    and a3: "fst (Timer_is_activated ?u False 106 106)"
    by (simp_all add: Timer_is_activated_def Timer_get_time_spend_def Timer_start_def
        Timer_init_def)
  have c: "call_back ?t = Some 7" "call_back ?u = None"
    by (simp_all add: Timer_start_def Timer_init_def)
  from update_spec [of ?t 106 106] a1 c
  have r1: "Timer_update ?t 106 = (?t, [7])"
    by (simp add: prod_eq_iff)
  from update_spec [of ?t 102 102] a2
  have r2: "Timer_update ?t 102 = (?t, [])"
    by (simp add: prod_eq_iff)
  from update_spec [of ?u 106 106] a3 c
  have r3: "Timer_update ?u 106 = (?u, [])"
    by (simp add: prod_eq_iff)
  from r1 r2 r3 show ?thesis by blast
qed

text \<open>
  C10. On a timer whose target is zero, \<open>is_activated\<close> returns \<open>False\<close> and changes
  nothing, whatever the reset flag and the clock, and \<open>update\<close> invokes no callback.
  No method assigns \<open>target_time\<close>, so this holds at every call made on a timer
  constructed with the target \<open>0.0\<close>, after any sequence of method calls.
\<close>

theorem zero_target_never_activated:
  "(target_time (t :: 'c Timer) = Some 0 \<longrightarrow>
       Timer_is_activated t reset now now' = (False, t) \<and> Timer_update t now = (t, []))
   \<and> Timer_is_activated (fold apply_call cs (Timer_init (Some 0) (cb :: 'c option))) reset now now'
       = (False, fold apply_call cs (Timer_init (Some 0) cb))
   \<and> Timer_update (fold apply_call cs (Timer_init (Some 0) cb)) now
       = (fold apply_call cs (Timer_init (Some 0) cb), [])"
proof -
  have a: "Timer_is_activated u r n n' = (False, u) \<and> Timer_update u n = (u, [])"
    if "target_time u = Some 0" for u :: "'c Timer" and r n n'
    using that by (simp add: Timer_is_activated_def Timer_update_def)
  have b: "target_time (fold apply_call cs (Timer_init (Some 0) cb)) = Some 0"
    by (simp add: target_time_fold_apply_call Timer_init_def)
  from a [of t reset now now'] a [OF b, of reset now now'] show ?thesis by blast
qed

theorem zero_target_never_activated_witness:
  "target_time (Timer_start (Timer_init (Some 0) (Some (7 :: nat))) 100) = Some 0
   \<and> Timer_get_time_spend (Timer_start (Timer_init (Some 0) (Some (7 :: nat))) 100) 250 = 150
   \<and> Timer_is_activated (Timer_start (Timer_init (Some 0) (Some (7 :: nat))) 100) True 250 251
       = (False, Timer_start (Timer_init (Some 0) (Some 7)) 100)
   \<and> Timer_update (Timer_start (Timer_init (Some 0) (Some (7 :: nat))) 100) 250
       = (Timer_start (Timer_init (Some 0) (Some 7)) 100, [])"
proof -
  let ?t = "Timer_start (Timer_init (Some 0) (Some (7 :: nat))) 100"
  have h: "target_time ?t = Some 0"
    by (simp add: Timer_start_def Timer_init_def)
  have e: "Timer_get_time_spend ?t 250 = 150"
    by (simp add: Timer_get_time_spend_def Timer_start_def Timer_init_def)
  from h zero_target_never_activated [of ?t True 250 251 "[]" "Some 7"]
  have r: "Timer_is_activated ?t True 250 251 = (False, ?t)" "Timer_update ?t 250 = (?t, [])"
    by blast+
  from h e r show ?thesis by blast
qed

section \<open>The registry's operations\<close>

text \<open>
  C9. After \<open>__setattr__\<close> stored a timer under a name, \<open>__getattr__\<close> of that name
  returns the same timer (the same reference). On a name that is not registered,
  \<open>__getattr__\<close> and \<open>__delattr__\<close> raise \<open>AttributeError\<close> (the spec's NotFound) and
  the registry stays as it was; on a registered name \<open>__delattr__\<close> succeeds; and
  after \<open>__delattr__\<close> of a name, \<open>__getattr__\<close> of it raises \<open>AttributeError\<close>.
\<close>

theorem registry_get_set_remove:
  "Timer_Manager_getattr (Timer_Manager_setattr timers name a) name = Inr a
   \<and> (name \<notin> set (map fst timers) \<longrightarrow>
        Timer_Manager_getattr timers name = Inl AttributeError
        \<and> Timer_Manager_delattr timers name = (Some AttributeError, timers))
   \<and> (name \<in> set (map fst timers) \<longrightarrow> fst (Timer_Manager_delattr timers name) = None)
   \<and> Timer_Manager_getattr (snd (Timer_Manager_delattr timers name)) name = Inl AttributeError"
proof -
  have absent: "map_of timers name = None" if "name \<notin> set (map fst timers)"
    using that by (simp add: map_of_eq_None_iff)
  have "Timer_Manager_getattr (Timer_Manager_setattr timers name a) name = Inr a"
    by (simp add: Timer_Manager_getattr_def Timer_Manager_setattr_def update_conv')
  moreover have "Timer_Manager_getattr (snd (Timer_Manager_delattr timers name)) name
      = Inl AttributeError"
    by (simp add: Timer_Manager_getattr_def Timer_Manager_delattr_def delete_conv' absent)
  ultimately show ?thesis
    by (simp add: Timer_Manager_getattr_def Timer_Manager_delattr_def absent)
qed

theorem registry_get_set_remove_witness:
  "''c'' \<notin> set (map fst manager_ab)
   \<and> Timer_Manager_getattr manager_ab ''c'' = Inl AttributeError
   \<and> Timer_Manager_delattr manager_ab ''c'' = (Some AttributeError, manager_ab)
   \<and> Timer_Manager_getattr (Timer_Manager_setattr manager_ab ''c'' 2) ''c'' = Inr 2
   \<and> ''a'' \<in> set (map fst manager_ab)
   \<and> Timer_Manager_getattr manager_ab ''a'' = Inr 0
   \<and> Timer_Manager_delattr manager_ab ''a'' = (None, [(''b'', 1)])
   \<and> Timer_Manager_getattr (snd (Timer_Manager_delattr manager_ab ''a'')) ''a''
       = Inl AttributeError"
proof -
  have m: "manager_ab = [(''a'', 0), (''b'', 1)]"
    by (simp add: manager_ab_def Timer_Manager_setattr_def Timer_Manager_init_def)
  have h1: "''c'' \<notin> set (map fst manager_ab)" and h2: "''a'' \<in> set (map fst manager_ab)"
    by (simp_all add: m)
  from h1 registry_get_set_remove [of manager_ab "''c''" 2]
  have r1: "Timer_Manager_getattr manager_ab ''c'' = Inl AttributeError"
    "Timer_Manager_delattr manager_ab ''c'' = (Some AttributeError, manager_ab)"
    "Timer_Manager_getattr (Timer_Manager_setattr manager_ab ''c'' 2) ''c'' = Inr 2"
    by blast+
  from h2 registry_get_set_remove [of manager_ab "''a''" 0]
  have r2: "fst (Timer_Manager_delattr manager_ab ''a'') = None"
    "Timer_Manager_getattr (snd (Timer_Manager_delattr manager_ab ''a'')) ''a''
       = Inl AttributeError"
    by blast+
  have r3: "Timer_Manager_getattr manager_ab ''a'' = Inr 0"
    by (simp add: m Timer_Manager_getattr_def)
  have "snd (Timer_Manager_delattr manager_ab ''a'') = [(''b'', 1)]"
    by (simp add: m Timer_Manager_delattr_def)
  with r2(1) have r4: "Timer_Manager_delattr manager_ab ''a'' = (None, [(''b'', 1)])"
    by (simp add: prod_eq_iff)
  from h1 r1 h2 r3 r4 r2(2) show ?thesis by blast
qed

text \<open>
  C1, as the code has it. \<open>stop_all\<close> stops the member timers in the registry's order
  and halts at the first member that is not running when it is reached: the
  \<open>ValueError\<close> of its \<open>stop\<close> leaves \<open>stop_all\<close>, the members before it have been
  stopped (each with its running interval added to \<open>time_spend\<close>), and every other
  timer, the running members after it among them, is as it was. Only when all members
  are running and no timer is registered twice are all of them stopped and no error
  raised. Here \<open>pre\<close> are the members reached before the halt, distinct and running, and
  \<open>rest\<close> is empty or begins with a member that is not running when reached: one that
  was not running before the call, or one that is among \<open>pre\<close> and so stopped already.
  Every registry splits this way (\<open>halt_split_exists\<close>).
\<close>

theorem stop_all_halts_at_first_stopped:
  assumes "map snd timers = pre @ rest"
    and "distinct pre"
    and "\<forall>a\<in>set pre. running (heap w a)"
    and "case rest of [] \<Rightarrow> True | b # _ \<Rightarrow> b \<in> set pre \<or> \<not> running (heap w b)"
  shows "fst (Timer_Manager_stop_all timers w) = (if rest = [] then None else Some ValueError)
    \<and> (\<forall>i<length pre.
          Timer_stop (heap w (pre ! i)) (clock w (ticks w + i))
            = (None, heap (snd (Timer_Manager_stop_all timers w)) (pre ! i)))
    \<and> (\<forall>a\<in>set pre. \<not> running (heap (snd (Timer_Manager_stop_all timers w)) a))
    \<and> (\<forall>a. a \<notin> set pre \<longrightarrow> heap (snd (Timer_Manager_stop_all timers w)) a = heap w a)"
proof -
  from stop_each_prefix [OF assms(2,3), of rest] obtain w' where
    w': "stop_each (pre @ rest) w = stop_each rest w'"
      "\<forall>a. a \<notin> set pre \<longrightarrow> heap w' a = heap w a"
      "\<forall>i<length pre.
         Timer_stop (heap w (pre ! i)) (clock w (ticks w + i)) = (None, heap w' (pre ! i))"
    by blast
  have stopped: "\<forall>a\<in>set pre. \<not> running (heap w' a)"
  proof
    fix a assume "a \<in> set pre"
    then obtain i where i: "i < length pre" "pre ! i = a" by (auto simp: in_set_conv_nth)
    with w'(3) have "Timer_stop (heap w a) (clock w (ticks w + i)) = (None, heap w' a)" by auto
    then have "fst (Timer_stop (heap w a) (clock w (ticks w + i))) = None"
      and "heap w' a = snd (Timer_stop (heap w a) (clock w (ticks w + i)))"
      by simp_all
    then show "\<not> running (heap w' a)"
      by (simp add: Timer_stop_def running_def split: option.splits)
  qed
  have last: "stop_each rest w' = (if rest = [] then None else Some ValueError, w')"
  proof (cases rest)
    case Nil
    then show ?thesis by simp
  next
    case (Cons b bs)
    with assms(4) have nb: "b \<in> set pre \<or> \<not> running (heap w b)" by simp
    have "\<not> running (heap w' b)"
    proof (cases "b \<in> set pre")
      case True
      with stopped show ?thesis by blast
    next
      case False
      with nb w'(2) show ?thesis by simp
    qed
    then show ?thesis using Cons by (simp add: stop_ref_not_running)
  qed
  have res: "Timer_Manager_stop_all timers w = (if rest = [] then None else Some ValueError, w')"
    using assms(1) w'(1) last by (simp add: Timer_Manager_stop_all_def)
  from res w'(2,3) stopped show ?thesis by simp
qed

text \<open>
  With \<open>b\<close> (running) registered before \<open>a\<close> (never started): \<open>b\<close> is stopped, then
  \<open>a\<close> raises. With the running timer under the two names \<open>a\<close> and \<open>b\<close>: it is stopped
  under \<open>a\<close>, then raises under \<open>b\<close>. With \<open>b\<close> alone: \<open>b\<close> is stopped and nothing is
  raised.
\<close>

theorem stop_all_halts_at_first_stopped_witness:
  "map snd manager_ba = [1] @ [0]
   \<and> running (heap example_world 1)
   \<and> \<not> running (heap example_world 0)
   \<and> fst (Timer_Manager_stop_all manager_ba example_world) = Some ValueError
   \<and> \<not> running (heap (snd (Timer_Manager_stop_all manager_ba example_world)) 1)
   \<and> heap (snd (Timer_Manager_stop_all manager_ba example_world)) 0 = heap example_world 0
   \<and> map snd manager_alias = [1] @ [1]
   \<and> fst (Timer_Manager_stop_all manager_alias example_world) = Some ValueError
   \<and> \<not> running (heap (snd (Timer_Manager_stop_all manager_alias example_world)) 1)
   \<and> fst (Timer_Manager_stop_all [(''b'', 1)] example_world) = None
   \<and> \<not> running (heap (snd (Timer_Manager_stop_all [(''b'', 1)] example_world)) 1)"
proof -
  have m: "map snd manager_ba = [1] @ [0]"
    by (simp add: manager_ba_def Timer_Manager_setattr_def Timer_Manager_init_def)
  have ma: "map snd manager_alias = [1] @ [1]"
    by (simp add: manager_alias_def Timer_Manager_setattr_def Timer_Manager_init_def)
  have h1: "running (heap example_world 1)" and h0: "\<not> running (heap example_world 0)"
    by (simp_all add: example_world_def running_def Timer_start_def Timer_init_def)
  have d: "distinct [1 :: addr]" by simp
  from h1 have p: "\<forall>a\<in>set [1]. running (heap example_world a)" by simp
  from h0 have q: "case [0] of [] \<Rightarrow> True
      | b # _ \<Rightarrow> b \<in> set [1] \<or> \<not> running (heap example_world b)"
    by simp
  from stop_all_halts_at_first_stopped [OF m d p q]
  have r1: "fst (Timer_Manager_stop_all manager_ba example_world) = Some ValueError"
    "\<not> running (heap (snd (Timer_Manager_stop_all manager_ba example_world)) 1)"
    "heap (snd (Timer_Manager_stop_all manager_ba example_world)) 0 = heap example_world 0"
    by simp_all
  have qa: "case [1] of [] \<Rightarrow> True
      | b # _ \<Rightarrow> b \<in> set [1 :: addr] \<or> \<not> running (heap example_world b)"
    by simp
  from stop_all_halts_at_first_stopped [OF ma d p qa]
  have ra: "fst (Timer_Manager_stop_all manager_alias example_world) = Some ValueError"
    "\<not> running (heap (snd (Timer_Manager_stop_all manager_alias example_world)) 1)"
    by simp_all
  have m': "map snd [(''b'', 1 :: addr)] = [1] @ []" by simp
  have q': "case [] :: addr list of [] \<Rightarrow> True
      | b # _ \<Rightarrow> b \<in> set [1] \<or> \<not> running (heap example_world b)"
    by simp
  from stop_all_halts_at_first_stopped [OF m' d p q']
  have r2: "fst (Timer_Manager_stop_all [(''b'', 1)] example_world) = None"
    "\<not> running (heap (snd (Timer_Manager_stop_all [(''b'', 1)] example_world)) 1)"
    by simp_all
  from m h1 h0 r1 ma ra r2 show ?thesis by blast
qed

text \<open>
  C1, as the claim has it, fails: with \<open>a\<close> (never started) registered before \<open>b\<close>
  (running), \<open>stop_all\<close> raises \<open>ValueError\<close> and \<open>b\<close> is still running afterwards.
\<close>

theorem stop_all_counterexample:
  "running (heap example_world 1)
   \<and> fst (Timer_Manager_stop_all manager_ab example_world) = Some ValueError
   \<and> running (heap (snd (Timer_Manager_stop_all manager_ab example_world)) 1)"
  by (simp add: example_world_def manager_ab_def Timer_Manager_setattr_def
      Timer_Manager_init_def Timer_Manager_stop_all_def stop_ref_def Timer_stop_def
      Timer_start_def Timer_init_def running_def)

end
